theory Spec2Isabelle
  imports Main
begin

section \<open>Business rule and workflow engine of the business logic processor\<close>

text \<open>
  A shallow embedding of \<^verbatim>\<open>src/services/business_logic_processor.py\<close>: the rule
  catalog with its condition evaluation and action dispatch, and the workflow executor.

  Conventions of the embedding:
  \<^item> the processor object is a record that every operation takes and returns;
  \<^item> a Python dict with string keys is a map, except \<^verbatim>\<open>workflow_tasks\<close>, whose
    insertion order decides the execution order and which is therefore a list of
    (key, task) pairs;
  \<^item> the readings of the clock and of the uuid generator are an explicit argument
    (\<open>ambient\<close>); time stamps that are only written into result dicts are left out;
  \<^item> logging is left out;
  \<^item> values of the evaluation context are the scalars int, bool, str and None; floats and
    dates are not represented.
\<close>

subsection \<open>Enumerations and data classes\<close>

datatype WorkflowStatus = PENDING | IN_PROGRESS | COMPLETED | FAILED | CANCELLED | ON_HOLD

datatype Priority = CRITICAL | HIGH | MEDIUM | LOW

datatype BusinessRuleType = VALIDATION | APPROVAL | NOTIFICATION | AUTOMATION | ESCALATION

subsection \<open>Values, expressions and Python's \<^verbatim>\<open>eval\<close> on the rule grammar\<close>

datatype pyval = VInt int | VBool bool | VStr string | VNone

text \<open>
  What a name of \<^verbatim>\<open>safe_globals\<close> can be bound to: a context value, one of the function
  objects put there by \<^verbatim>\<open>_evaluate_condition\<close> (identified by the name it is bound to), or
  the empty dict bound to \<^verbatim>\<open>__builtins__\<close>.
\<close>

datatype evalue = Val pyval | Fun string | Builtins

datatype pyexn = NameError string | TypeError | AttributeError | SyntaxError

datatype cmpop = CmpLt | CmpLtE | CmpGt | CmpGtE | CmpEq | CmpNotEq | CmpIn | CmpNotIn

datatype predicate = Is_weekend | Days_between | Is_supervisor | Is_high_value

text \<open>
  The syntax tree of a condition: names, literals, one comparison or membership test,
  \<^verbatim>\<open>and\<close>, \<^verbatim>\<open>or\<close>, \<^verbatim>\<open>not\<close>, and calls of the four functions that
  \<^verbatim>\<open>_evaluate_condition\<close> registers last. A rule's condition is a Python source string; it
  is represented by the tree that Python compiles it to, or by \<open>Unparsable\<close> when the
  string does not compile.
\<close>

datatype expr =
    PName string
  | PConst pyval
  | PCompare expr cmpop expr
  | PAnd expr expr
  | POr expr expr
  | PNot expr
  | PCall predicate "expr list"

datatype condition = Parsed expr | Unparsable

record business_config =
  equipment_value :: int
  derivco_supervisors :: "string list"
  auto_reorder_enabled :: bool
  approval_required_categories :: "string list"

definition load_derivco_business_config :: business_config where
  "load_derivco_business_config =
     \<lparr> equipment_value = 1000,
       derivco_supervisors = [''Erasmus Ngwane'', ''Brindley Harrington''],
       auto_reorder_enabled = True,
       approval_required_categories = [''Safety'', ''Access Control''] \<rparr>"

type_synonym eval_context = "string \<rightharpoonup> pyval"

definition safe_builtins :: "string list" where
  "safe_builtins = [''len'', ''str'', ''int'', ''float'', ''bool'', ''min'', ''max'', ''abs'', ''round'']"

definition business_functions :: "string list" where
  "business_functions = [''is_weekend'', ''days_between'', ''is_supervisor'', ''is_high_value'']"

text \<open>
  \<^verbatim>\<open>safe_globals\<close>: the fixed entries, updated by the context, updated by the business
  functions; a later update wins.
\<close>

definition safe_globals :: "eval_context \<Rightarrow> string \<Rightarrow> evalue option" where
  "safe_globals ctx x =
     (if x \<in> set business_functions then Some (Fun x)
      else case ctx x of
        Some v \<Rightarrow> Some (Val v)
      | None \<Rightarrow>
          if x = ''__builtins__'' then Some Builtins
          else if x \<in> set safe_builtins then Some (Fun x)
          else None)"

text \<open>
  A name that is not a key of the globals is looked up in \<^verbatim>\<open>__builtins__\<close>: the empty
  dict gives NameError; a scalar that the context put there cannot be indexed.
\<close>

definition load_name :: "(string \<Rightarrow> evalue option) \<Rightarrow> string \<Rightarrow> pyexn + evalue" where
  "load_name g x =
     (case g x of
        Some v \<Rightarrow> Inr v
      | None \<Rightarrow> if g ''__builtins__'' = Some Builtins then Inl (NameError x) else Inl TypeError)"

fun truthy :: "evalue \<Rightarrow> bool" where
  "truthy (Val (VInt n)) = (n \<noteq> 0)"
| "truthy (Val (VBool b)) = b"
| "truthy (Val (VStr s)) = (s \<noteq> [])"
| "truthy (Val VNone) = False"
| "truthy (Fun f) = True"
| "truthy Builtins = False"

fun as_int :: "evalue \<Rightarrow> int option" where
  "as_int (Val (VInt n)) = Some n"
| "as_int (Val (VBool b)) = Some (if b then 1 else 0)"
| "as_int v = None"

definition py_eq :: "evalue \<Rightarrow> evalue \<Rightarrow> bool" where
  "py_eq a b =
     (case (as_int a, as_int b) of
        (Some m, Some n) \<Rightarrow> m = n
      | _ \<Rightarrow> a = b)"

fun str_lt :: "string \<Rightarrow> string \<Rightarrow> bool" where
  "str_lt [] [] = False"
| "str_lt [] (y # ys) = True"
| "str_lt (x # xs) [] = False"
| "str_lt (x # xs) (y # ys) =
     (if (of_char x :: nat) < of_char y then True
      else if (of_char x :: nat) = of_char y then str_lt xs ys
      else False)"

fun starts_with :: "string \<Rightarrow> string \<Rightarrow> bool" where
  "starts_with s [] = True"
| "starts_with [] (p # ps) = False"
| "starts_with (c # cs) (p # ps) = (c = p \<and> starts_with cs ps)"

fun contains_str :: "string \<Rightarrow> string \<Rightarrow> bool" where
  "contains_str [] p = (p = [])"
| "contains_str (c # cs) p = (starts_with (c # cs) p \<or> contains_str cs p)"

definition py_less :: "evalue \<Rightarrow> evalue \<Rightarrow> pyexn + bool" where
  "py_less a b =
     (case (as_int a, as_int b) of
        (Some m, Some n) \<Rightarrow> Inr (m < n)
      | _ \<Rightarrow>
          (case (a, b) of
             (Val (VStr s), Val (VStr t)) \<Rightarrow> Inr (str_lt s t)
           | _ \<Rightarrow> Inl TypeError))"

definition py_less_eq :: "evalue \<Rightarrow> evalue \<Rightarrow> pyexn + bool" where
  "py_less_eq a b =
     (case (as_int a, as_int b) of
        (Some m, Some n) \<Rightarrow> Inr (m \<le> n)
      | _ \<Rightarrow>
          (case (a, b) of
             (Val (VStr s), Val (VStr t)) \<Rightarrow> Inr (\<not> str_lt t s)
           | _ \<Rightarrow> Inl TypeError))"

text \<open>\<^verbatim>\<open>a in b\<close>: substring test on strings, key test on the empty dict, TypeError otherwise.\<close>

definition py_in :: "evalue \<Rightarrow> evalue \<Rightarrow> pyexn + bool" where
  "py_in a b =
     (case b of
        Val (VStr t) \<Rightarrow> (case a of Val (VStr s) \<Rightarrow> Inr (contains_str t s) | _ \<Rightarrow> Inl TypeError)
      | Builtins \<Rightarrow> (if a = Builtins then Inl TypeError else Inr False)
      | _ \<Rightarrow> Inl TypeError)"

definition negate :: "pyexn + bool \<Rightarrow> pyexn + bool" where
  "negate r = (case r of Inl e \<Rightarrow> Inl e | Inr b \<Rightarrow> Inr (\<not> b))"

fun py_compare :: "cmpop \<Rightarrow> evalue \<Rightarrow> evalue \<Rightarrow> pyexn + bool" where
  "py_compare CmpLt a b = py_less a b"
| "py_compare CmpLtE a b = py_less_eq a b"
| "py_compare CmpGt a b = py_less b a"
| "py_compare CmpGtE a b = py_less_eq b a"
| "py_compare CmpEq a b = Inr (py_eq a b)"
| "py_compare CmpNotEq a b = Inr (\<not> py_eq a b)"
| "py_compare CmpIn a b = py_in a b"
| "py_compare CmpNotIn a b = negate (py_in a b)"

text \<open>
  The four lambdas of \<^verbatim>\<open>_evaluate_condition\<close>. \<open>wd\<close> is
  \<^verbatim>\<open>datetime.now().weekday()\<close>. \<^verbatim>\<open>days_between\<close> subtracts and then reads
  \<^verbatim>\<open>.days\<close>: on numbers the attribute is missing, on the other scalars the subtraction
  is not defined. A call with the wrong number of arguments is a TypeError.
\<close>

fun call_predicate :: "business_config \<Rightarrow> nat \<Rightarrow> predicate \<Rightarrow> evalue list \<Rightarrow> pyexn + evalue" where
  "call_predicate cfg wd Is_weekend [] = Inr (Val (VBool (wd \<ge> 5)))"
| "call_predicate cfg wd Days_between [d1, d2] =
     (if as_int d1 \<noteq> None \<and> as_int d2 \<noteq> None then Inl AttributeError else Inl TypeError)"
| "call_predicate cfg wd Is_supervisor [name] =
     Inr (Val (VBool (List.member (map (\<lambda>s. Val (VStr s)) (derivco_supervisors cfg)) name)))"
| "call_predicate cfg wd Is_high_value [v] =
     (case as_int v of
        Some n \<Rightarrow> Inr (Val (VBool (n > equipment_value cfg)))
      | None \<Rightarrow> Inl TypeError)"
| "call_predicate cfg wd p args = Inl TypeError"

fun py_eval :: "business_config \<Rightarrow> nat \<Rightarrow> (string \<Rightarrow> evalue option) \<Rightarrow> expr \<Rightarrow> pyexn + evalue"
  and eval_args :: "business_config \<Rightarrow> nat \<Rightarrow> (string \<Rightarrow> evalue option) \<Rightarrow> expr list \<Rightarrow> pyexn + evalue list"
where
  "py_eval cfg wd g (PName x) = load_name g x"
| "py_eval cfg wd g (PConst v) = Inr (Val v)"
| "py_eval cfg wd g (PCompare l op r) =
     (case py_eval cfg wd g l of
        Inl e \<Rightarrow> Inl e
      | Inr a \<Rightarrow>
          (case py_eval cfg wd g r of
             Inl e \<Rightarrow> Inl e
           | Inr b \<Rightarrow>
               (case py_compare op a b of
                  Inl e \<Rightarrow> Inl e
                | Inr t \<Rightarrow> Inr (Val (VBool t)))))"
| "py_eval cfg wd g (PAnd l r) =
     (case py_eval cfg wd g l of
        Inl e \<Rightarrow> Inl e
      | Inr a \<Rightarrow> if truthy a then py_eval cfg wd g r else Inr a)"
| "py_eval cfg wd g (POr l r) =
     (case py_eval cfg wd g l of
        Inl e \<Rightarrow> Inl e
      | Inr a \<Rightarrow> if truthy a then Inr a else py_eval cfg wd g r)"
| "py_eval cfg wd g (PNot e) =
     (case py_eval cfg wd g e of
        Inl x \<Rightarrow> Inl x
      | Inr a \<Rightarrow> Inr (Val (VBool (\<not> truthy a))))"
| "py_eval cfg wd g (PCall p args) =
     (case eval_args cfg wd g args of
        Inl e \<Rightarrow> Inl e
      | Inr vs \<Rightarrow> call_predicate cfg wd p vs)"
| "eval_args cfg wd g [] = Inr []"
| "eval_args cfg wd g (a # as) =
     (case py_eval cfg wd g a of
        Inl e \<Rightarrow> Inl e
      | Inr v \<Rightarrow>
          (case eval_args cfg wd g as of
             Inl e \<Rightarrow> Inl e
           | Inr vs \<Rightarrow> Inr (v # vs)))"

text \<open>
  \<^verbatim>\<open>eval(condition, safe_globals, {})\<close> on the conditions of the rule grammar above;
  compiling the string may fail. This is not Python's \<^verbatim>\<open>eval\<close> on every string:
  expressions outside the grammar, exceptions that are not derived from
  \<^verbatim>\<open>Exception\<close>, and evaluations that do not return are not represented.
\<close>

definition eval_builtin :: "business_config \<Rightarrow> nat \<Rightarrow> condition \<Rightarrow> (string \<Rightarrow> evalue option) \<Rightarrow> pyexn + evalue" where
  "eval_builtin cfg wd c g =
     (case c of
        Unparsable \<Rightarrow> Inl SyntaxError
      | Parsed e \<Rightarrow> py_eval cfg wd g e)"

text \<open>\<^verbatim>\<open>_evaluate_condition\<close>: \<^verbatim>\<open>bool(result)\<close>, and \<^verbatim>\<open>False\<close> in the except branch.\<close>

definition evaluate_condition :: "business_config \<Rightarrow> nat \<Rightarrow> condition \<Rightarrow> eval_context \<Rightarrow> bool" where
  "evaluate_condition cfg wd c ctx =
     (case eval_builtin cfg wd c (safe_globals ctx) of
        Inl e \<Rightarrow> False
      | Inr v \<Rightarrow> truthy v)"

subsection \<open>Rules, requests, results and the processor\<close>

record BusinessRule =
  rule_id :: string
  rule_name :: string
  rule_type :: BusinessRuleType
  description :: string
  condition :: condition
  action :: string
  rule_priority :: Priority
  enabled :: bool
  last_executed :: "string option"
  execution_count :: int

record WorkflowTask =
  task_id :: string
  workflow_id :: string
  task_name :: string
  task_type :: string
  assignee :: string
  status :: WorkflowStatus
  task_priority :: Priority
  dependencies :: "string list"

text \<open>\<open>request_item_details\<close> is the context's value, or the default \<^verbatim>\<open>{}\<close>.\<close>

datatype item_details = Details pyval | EmptyDict

record ApprovalRequest =
  request_id :: string
  request_type :: string
  requester :: pyval
  approver :: pyval
  request_item_details :: item_details
  justification :: pyval
  request_priority :: Priority
  request_status :: string
  comments :: string

text \<open>The dict returned by \<^verbatim>\<open>evaluate_business_rule\<close>; a key that is not set is \<open>None\<close>.\<close>

record evaluation_result =
  res_rule_id :: string
  res_rule_name :: "string option"
  res_rule_type :: "BusinessRuleType option"
  evaluated :: bool
  reason :: "string option"
  condition_met :: "bool option"
  actions_triggered :: "string list option"
  res_error :: "string option"
  res_context :: "eval_context option"

text \<open>The dict returned by \<^verbatim>\<open>_execute_workflow_task\<close>.\<close>

record task_result =
  tr_task_id :: string
  tr_task_name :: "string option"
  tr_task_type :: "string option"
  tr_status :: string
  tr_result :: "string option"
  tr_error :: "string option"

text \<open>The dict returned by \<^verbatim>\<open>execute_workflow\<close>.\<close>

record execution_result =
  er_workflow_id :: string
  er_status :: string
  tasks_executed :: "task_result list"
  tasks_pending :: "task_result list"
  tasks_failed :: "task_result list"
  er_context :: eval_context
  er_error :: "string option"

record processor =
  business_rules :: "string \<rightharpoonup> BusinessRule"
  workflow_tasks :: "(string \<times> WorkflowTask) list"
  approval_requests :: "string \<rightharpoonup> ApprovalRequest"
  rule_execution_history :: "evaluation_result list"
  workflow_history :: "execution_result list"
  derivco_business_config :: business_config

text \<open>
  What one call reads from outside the processor: \<^verbatim>\<open>datetime.now().weekday()\<close>,
  \<^verbatim>\<open>datetime.now().strftime('%Y%m%d_%H%M%S')\<close> and \<^verbatim>\<open>uuid.uuid4().hex[:8]\<close>.
\<close>

record ambient =
  weekday :: nat
  stamp :: string
  uuid8 :: string

subsection \<open>String formatting\<close>

fun nat_digits :: "nat \<Rightarrow> string" where
  "nat_digits n =
     (if n < 10 then [char_of (48 + n)]
      else nat_digits (n div 10) @ [char_of (48 + n mod 10)])"

declare nat_digits.simps [simp del]

definition py_str :: "pyval \<Rightarrow> string" where
  "py_str v =
     (case v of
        VInt n \<Rightarrow> (if n < 0 then CHR ''-'' # nat_digits (nat (- n)) else nat_digits (nat n))
      | VBool b \<Rightarrow> (if b then ''True'' else ''False'')
      | VStr s \<Rightarrow> s
      | VNone \<Rightarrow> ''None'')"

text \<open>\<^verbatim>\<open>context.get(key, default)\<close>.\<close>

definition ctx_get :: "eval_context \<Rightarrow> string \<Rightarrow> pyval \<Rightarrow> pyval" where
  "ctx_get ctx k d = (case ctx k of Some v \<Rightarrow> v | None \<Rightarrow> d)"

subsection \<open>Action handlers\<close>

text \<open>
  \<^verbatim>\<open>_create_approval_request\<close>. With no rule (\<^verbatim>\<open>None\<close>) the default justification
  cannot be built; the AttributeError is caught and reported in the returned string, and
  no request is stored.
\<close>

definition create_approval_request ::
    "ambient \<Rightarrow> BusinessRule option \<Rightarrow> eval_context \<Rightarrow> processor \<Rightarrow> string \<times> processor" where
  "create_approval_request amb rule ctx st =
     (let rid = ''APPR_'' @ stamp amb @ ''_'' @ uuid8 amb in
      case rule of
        None \<Rightarrow>
          (''Error: '' @ [CHR 0x27] @ ''NoneType'' @ [CHR 0x27] @ '' object has no attribute ''
             @ [CHR 0x27] @ ''rule_name'' @ [CHR 0x27], st)
      | Some r \<Rightarrow>
          (let req = \<lparr> request_id = rid,
                       request_type = ''equipment_approval'',
                       requester = ctx_get ctx ''requester'' (VStr ''unknown''),
                       approver = ctx_get ctx ''approver'' (VStr ''supervisor''),
                       request_item_details =
                         (case ctx ''item_details'' of Some v \<Rightarrow> Details v | None \<Rightarrow> EmptyDict),
                       justification =
                         ctx_get ctx ''justification'' (VStr (''Triggered by rule: '' @ rule_name r)),
                       request_priority = HIGH,
                       request_status = ''pending'',
                       comments = [] \<rparr>
           in (rid, st\<lparr>approval_requests := (approval_requests st)(rid \<mapsto> req)\<rparr>)))"

definition send_critical_stock_alert :: "eval_context \<Rightarrow> string" where
  "send_critical_stock_alert ctx =
     ''Alert sent for '' @ py_str (ctx_get ctx ''item_name'' (VStr ''Unknown Item''))"

definition escalate_to_supervisor :: "eval_context \<Rightarrow> string" where
  "escalate_to_supervisor ctx =
     ''Escalated to '' @ py_str (ctx_get ctx ''supervisor'' (VStr ''Erasmus Ngwane''))"

definition require_valid_work_order :: "eval_context \<Rightarrow> string" where
  "require_valid_work_order ctx =
     ''Validation required for transaction ''
       @ py_str (ctx_get ctx ''transaction_id'' (VStr ''Unknown''))"

definition create_purchase_requisition :: "ambient \<Rightarrow> eval_context \<Rightarrow> string" where
  "create_purchase_requisition amb ctx =
     ''REQ_'' @ stamp amb @ ''_'' @ py_str (ctx_get ctx ''item_code'' (VStr ''Unknown''))"

definition send_compliance_alert :: "eval_context \<Rightarrow> string" where
  "send_compliance_alert ctx = ''Compliance alert sent''"

definition require_bulk_checkout_approval :: "ambient \<Rightarrow> eval_context \<Rightarrow> string" where
  "require_bulk_checkout_approval amb ctx =
     ''BULK_'' @ stamp amb @ ''_'' @ py_str (ctx_get ctx ''requester'' (VStr ''Unknown''))"

definition set_high_priority :: "eval_context \<Rightarrow> string" where
  "set_high_priority ctx =
     ''High priority set for '' @ py_str (ctx_get ctx ''request_id'' (VStr ''Unknown''))"

text \<open>\<^verbatim>\<open>_execute_rule_action\<close>: the list of messages, and the processor after the action.\<close>

definition execute_rule_action ::
    "ambient \<Rightarrow> BusinessRule \<Rightarrow> eval_context \<Rightarrow> processor \<Rightarrow> string list \<times> processor" where
  "execute_rule_action amb rule ctx st =
     (if action rule = ''create_approval_request'' then
        (let (approval_id, st') = create_approval_request amb (Some rule) ctx st
         in ([''Created approval request: '' @ approval_id], st'))
      else if action rule = ''send_critical_stock_alert'' then
        ([''Sent critical stock alert: '' @ send_critical_stock_alert ctx], st)
      else if action rule = ''escalate_to_supervisor'' then
        ([''Escalated to supervisor: '' @ escalate_to_supervisor ctx], st)
      else if action rule = ''require_valid_work_order'' then
        ([''Work order validation required: '' @ require_valid_work_order ctx], st)
      else if action rule = ''create_purchase_requisition'' then
        ([''Created purchase requisition: '' @ create_purchase_requisition amb ctx], st)
      else if action rule = ''send_compliance_alert'' then
        ([''Sent compliance alert: '' @ send_compliance_alert ctx], st)
      else if action rule = ''require_bulk_checkout_approval'' then
        ([''Required bulk checkout approval: '' @ require_bulk_checkout_approval amb ctx], st)
      else if action rule = ''set_high_priority'' then
        ([''Set high priority: '' @ set_high_priority ctx], st)
      else ([''Unknown action: '' @ action rule], st))"

subsection \<open>Rule evaluation\<close>

text \<open>
  \<^verbatim>\<open>evaluate_business_rule\<close>. The outer handler is reached by the ValueError of an unknown
  rule id. Neither \<^verbatim>\<open>_evaluate_condition\<close> nor \<^verbatim>\<open>_execute_rule_action\<close> lets an exception
  out, so the inner handler, which would set the \<^verbatim>\<open>error\<close> key, has no branch here.
\<close>

text \<open>The dict \<^verbatim>\<open>evaluation_result\<close> as it is first built.\<close>

definition initial_result :: "string \<Rightarrow> BusinessRule \<Rightarrow> eval_context \<Rightarrow> evaluation_result" where
  "initial_result rid rule ctx =
     \<lparr> res_rule_id = rid, res_rule_name = Some (rule_name rule),
       res_rule_type = Some (rule_type rule),
       evaluated = True, reason = None, condition_met = Some False,
       actions_triggered = Some [], res_error = None,
       res_context = Some ctx \<rparr>"

definition evaluate_business_rule ::
    "ambient \<Rightarrow> string \<Rightarrow> eval_context \<Rightarrow> processor \<Rightarrow> evaluation_result \<times> processor" where
  "evaluate_business_rule amb rid ctx st =
     (case business_rules st rid of
        None \<Rightarrow>
          (\<lparr> res_rule_id = rid, res_rule_name = None, res_rule_type = None,
              evaluated = False, reason = None, condition_met = None,
              actions_triggered = None,
              res_error = Some (''Business rule '' @ rid @ '' not found''),
              res_context = None \<rparr>, st)
      | Some rule \<Rightarrow>
          if \<not> enabled rule then
            (\<lparr> res_rule_id = rid, res_rule_name = Some (rule_name rule), res_rule_type = None,
                evaluated = False, reason = Some ''Rule is disabled'', condition_met = None,
                actions_triggered = None, res_error = None, res_context = None \<rparr>, st)
          else
            (let evaluation_result = initial_result rid rule ctx;
                 met = evaluate_condition (derivco_business_config st) (weekday amb)
                         (condition rule) ctx;
                 (res, st1) =
                   (if met then
                      (let (action_results, st') = execute_rule_action amb rule ctx st
                       in (evaluation_result\<lparr>condition_met := Some True,
                                               actions_triggered := Some action_results\<rparr>,
                           st'\<lparr>business_rules := (business_rules st')(rid \<mapsto>
                                  rule\<lparr>last_executed := Some (stamp amb),
                                       execution_count := execution_count rule + 1\<rparr>)\<rparr>))
                    else (evaluation_result\<lparr>condition_met := Some met\<rparr>, st))
             in (res, st1\<lparr>rule_execution_history := rule_execution_history st1 @ [res]\<rparr>)))"

text \<open>
  The dict that \<^verbatim>\<open>process_inventory_business_rules\<close> and
  \<^verbatim>\<open>process_compliance_business_rules\<close> fill, without its time stamp and summary.
\<close>

record processing_results =
  rules_processed :: nat
  rules_triggered :: nat
  actions_executed :: nat
  rule_results :: "evaluation_result list"

text \<open>
  The batch loop \<^verbatim>\<open>for rule_id in relevant_rules\<close> of
  \<^verbatim>\<open>process_inventory_business_rules\<close>, for one context. \<open>amb 0\<close> is what the next
  evaluation reads from the clock.
\<close>

fun process_rules ::
    "(nat \<Rightarrow> ambient) \<Rightarrow> string list \<Rightarrow> eval_context \<Rightarrow> processing_results \<times> processor
      \<Rightarrow> processing_results \<times> processor" where
  "process_rules amb [] ctx (pr, st) = (pr, st)"
| "process_rules amb (rid # rids) ctx (pr, st) =
     (if business_rules st rid \<noteq> None then
        (let (result, st') = evaluate_business_rule (amb 0) rid ctx st;
             pr1 = pr\<lparr>rule_results := rule_results pr @ [result],
                      rules_processed := rules_processed pr + 1\<rparr>;
             pr2 = (if condition_met result = Some True then
                      pr1\<lparr>rules_triggered := rules_triggered pr1 + 1,
                          actions_executed := actions_executed pr1
                            + length (case actions_triggered result of Some l \<Rightarrow> l | None \<Rightarrow> [])\<rparr>
                    else pr1)
         in process_rules (\<lambda>k. amb (Suc k)) rids ctx (pr2, st'))
      else process_rules amb rids ctx (pr, st))"

subsection \<open>Workflow tasks\<close>

definition execute_validation_task :: "WorkflowTask \<Rightarrow> string" where
  "execute_validation_task t = ''Validation completed for '' @ task_name t"

text \<open>\<^verbatim>\<open>_execute_approval_task\<close> passes \<^verbatim>\<open>self.business_rules.get('BR001')\<close>.\<close>

definition execute_approval_task ::
    "ambient \<Rightarrow> WorkflowTask \<Rightarrow> eval_context \<Rightarrow> processor \<Rightarrow> string \<times> processor" where
  "execute_approval_task amb t ctx st =
     (let (approval_id, st') = create_approval_request amb (business_rules st ''BR001'') ctx st
      in (''Approval request created: '' @ approval_id, st'))"

definition execute_data_entry_task :: "WorkflowTask \<Rightarrow> string" where
  "execute_data_entry_task t = ''Data entry completed for '' @ task_name t"

definition execute_scheduling_task :: "WorkflowTask \<Rightarrow> string" where
  "execute_scheduling_task t = ''Scheduling completed for '' @ task_name t"

definition execute_monitoring_task :: "WorkflowTask \<Rightarrow> string" where
  "execute_monitoring_task t = ''Monitoring initiated for '' @ task_name t"

definition execute_documentation_task :: "WorkflowTask \<Rightarrow> string" where
  "execute_documentation_task t = ''Documentation completed for '' @ task_name t"

definition execute_procurement_task :: "WorkflowTask \<Rightarrow> string" where
  "execute_procurement_task t = ''Procurement initiated for '' @ task_name t"

definition running_result :: "WorkflowTask \<Rightarrow> task_result" where
  "running_result t =
     \<lparr> tr_task_id = task_id t, tr_task_name = Some (task_name t),
       tr_task_type = Some (task_type t), tr_status = ''running'',
       tr_result = None, tr_error = None \<rparr>"

text \<open>The dict that the except branch of \<^verbatim>\<open>_execute_workflow_task\<close> returns.\<close>

definition failed_result :: "WorkflowTask \<Rightarrow> string \<Rightarrow> task_result" where
  "failed_result t msg =
     \<lparr> tr_task_id = task_id t, tr_task_name = None, tr_task_type = None,
       tr_status = ''failed'', tr_result = None, tr_error = Some msg \<rparr>"

text \<open>
  \<^verbatim>\<open>_execute_workflow_task\<close>. The dependency check of the source is the statement
  \<^verbatim>\<open>pass\<close>: the task's dependencies are not read. None of the handlers raises on the
  values of this model, so the except branch is not taken here.
\<close>

definition execute_workflow_task ::
    "ambient \<Rightarrow> WorkflowTask \<Rightarrow> eval_context \<Rightarrow> processor \<Rightarrow> task_result \<times> processor" where
  "execute_workflow_task amb t ctx st =
     (let task_result = running_result t in
      if task_type t = ''validation'' then
        (task_result\<lparr>tr_result := Some (execute_validation_task t), tr_status := ''completed''\<rparr>, st)
      else if task_type t = ''approval'' then
        (let (r, st') = execute_approval_task amb t ctx st
         in (task_result\<lparr>tr_result := Some r, tr_status := ''pending''\<rparr>, st'))
      else if task_type t = ''data_entry'' then
        (task_result\<lparr>tr_result := Some (execute_data_entry_task t), tr_status := ''completed''\<rparr>, st)
      else if task_type t = ''scheduling'' then
        (task_result\<lparr>tr_result := Some (execute_scheduling_task t), tr_status := ''completed''\<rparr>, st)
      else if task_type t = ''monitoring'' then
        (task_result\<lparr>tr_result := Some (execute_monitoring_task t), tr_status := ''completed''\<rparr>, st)
      else if task_type t = ''documentation'' then
        (task_result\<lparr>tr_result := Some (execute_documentation_task t), tr_status := ''completed''\<rparr>, st)
      else if task_type t = ''procurement'' then
        (task_result\<lparr>tr_result := Some (execute_procurement_task t), tr_status := ''pending''\<rparr>, st)
      else
        (task_result\<lparr>tr_result := Some (''Task type '' @ task_type t @ '' not implemented''),
                     tr_status := ''completed''\<rparr>, st))"

subsection \<open>Workflow execution\<close>

text \<open>
  The tasks are objects held by the dict \<^verbatim>\<open>workflow_tasks\<close>; the sorted list of
  \<^verbatim>\<open>execute_workflow\<close> holds the same objects. A task is named here by the position of
  its entry in the dict, and \<^verbatim>\<open>task.status = ...\<close> writes at that position.
\<close>

definition task_at :: "processor \<Rightarrow> nat \<Rightarrow> WorkflowTask" where
  "task_at st i = snd (workflow_tasks st ! i)"

definition set_status :: "nat \<Rightarrow> WorkflowStatus \<Rightarrow> processor \<Rightarrow> processor" where
  "set_status i s st =
     st\<lparr>workflow_tasks :=
          (workflow_tasks st)[i := (fst (workflow_tasks st ! i), (task_at st i)\<lparr>status := s\<rparr>)]\<rparr>"

text \<open>The body of the loop after the call of \<^verbatim>\<open>_execute_workflow_task\<close>.\<close>

definition record_task_result ::
    "nat \<Rightarrow> task_result \<Rightarrow> execution_result \<times> processor \<Rightarrow> execution_result \<times> processor" where
  "record_task_result i tr s =
     (case s of (er, st) \<Rightarrow>
        if tr_status tr = ''completed'' then
          (er\<lparr>tasks_executed := tasks_executed er @ [tr]\<rparr>, set_status i COMPLETED st)
        else if tr_status tr = ''failed'' then
          (er\<lparr>tasks_failed := tasks_failed er @ [tr]\<rparr>, set_status i FAILED st)
        else
          (er\<lparr>tasks_pending := tasks_pending er @ [tr]\<rparr>, st))"

text \<open>One iteration of \<^verbatim>\<open>for task in sorted_tasks\<close>, for the task at position \<open>i\<close>.\<close>

definition loop_body ::
    "ambient \<Rightarrow> eval_context \<Rightarrow> nat \<Rightarrow> execution_result \<times> processor
      \<Rightarrow> execution_result \<times> processor" where
  "loop_body a ctx i s =
     (case s of (er, st) \<Rightarrow>
        (case execute_workflow_task a (task_at st i) ctx st of (tr, st') \<Rightarrow>
           record_task_result i tr (er, st')))"

text \<open>The loop; \<open>amb 0\<close> is what the next task reads from the clock.\<close>

fun run_tasks ::
    "(nat \<Rightarrow> ambient) \<Rightarrow> eval_context \<Rightarrow> nat list \<Rightarrow> execution_result \<times> processor
      \<Rightarrow> execution_result \<times> processor" where
  "run_tasks amb ctx [] s = s"
| "run_tasks amb ctx (i # is) s = run_tasks (\<lambda>k. amb (Suc k)) ctx is (loop_body (amb 0) ctx i s)"

text \<open>
  The positions of the tasks of one workflow, in dict order, and their order of execution:
  \<^verbatim>\<open>sorted(workflow_tasks, key=lambda t: len(t.dependencies))\<close>, a stable sort.
\<close>

definition tasks_of :: "processor \<Rightarrow> string \<Rightarrow> nat list" where
  "tasks_of st wid =
     filter (\<lambda>i. workflow_id (task_at st i) = wid) [0..<length (workflow_tasks st)]"

definition sorted_tasks :: "processor \<Rightarrow> string \<Rightarrow> nat list" where
  "sorted_tasks st wid = sort_key (\<lambda>i. length (dependencies (task_at st i))) (tasks_of st wid)"

definition overall_status :: "execution_result \<Rightarrow> string" where
  "overall_status er =
     (if tasks_failed er \<noteq> [] then ''failed''
      else if tasks_pending er \<noteq> [] then ''pending''
      else ''completed'')"

definition start_result :: "string \<Rightarrow> eval_context \<Rightarrow> execution_result" where
  "start_result wid ctx =
     \<lparr> er_workflow_id = wid, er_status = ''running'', tasks_executed = [],
       tasks_pending = [], tasks_failed = [], er_context = ctx, er_error = None \<rparr>"

definition execute_workflow ::
    "(nat \<Rightarrow> ambient) \<Rightarrow> string \<Rightarrow> eval_context option \<Rightarrow> processor
      \<Rightarrow> execution_result \<times> processor" where
  "execute_workflow amb wid context st =
     (let ctx = (case context of None \<Rightarrow> Map.empty | Some c \<Rightarrow> c);
          execution_result = start_result wid ctx
      in if tasks_of st wid = [] then
           (execution_result\<lparr>er_status := ''failed'',
                er_error := Some (''No tasks found for workflow '' @ wid)\<rparr>, st)
         else
           (case run_tasks amb ctx (sorted_tasks st wid) (execution_result, st) of (er, st') \<Rightarrow>
              (let er' = er\<lparr>er_status := overall_status er\<rparr>
               in (er', st'\<lparr>workflow_history := workflow_history st' @ [er']\<rparr>))))"

subsection \<open>Construction of the processor\<close>

text \<open>\<^verbatim>\<open>d[k] = v\<close> on a dict kept in insertion order.\<close>

fun dict_set :: "(string \<times> 'a) list \<Rightarrow> string \<Rightarrow> 'a \<Rightarrow> (string \<times> 'a) list" where
  "dict_set [] k v = [(k, v)]"
| "dict_set ((k', v') # xs) k v =
     (if k' = k then (k, v) # xs else (k', v') # dict_set xs k v)"

text \<open>
  \<^verbatim>\<open>for task in tasks: self.workflow_tasks[task.task_id] = task\<close>, the way each
  \<^verbatim>\<open>_create_..._workflow\<close> method stores its template. Nothing else is checked.
\<close>

definition register_tasks :: "WorkflowTask list \<Rightarrow> processor \<Rightarrow> processor" where
  "register_tasks ts st =
     st\<lparr>workflow_tasks := foldl (\<lambda>d t. dict_set d (task_id t) t) (workflow_tasks st) ts\<rparr>"

definition new_task ::
    "string \<Rightarrow> string \<Rightarrow> string \<Rightarrow> string \<Rightarrow> string \<Rightarrow> Priority \<Rightarrow> string list \<Rightarrow> WorkflowTask" where
  "new_task wid suffix name ty who prio deps =
     \<lparr> task_id = wid @ suffix, workflow_id = wid, task_name = name, task_type = ty,
       assignee = who, status = PENDING, task_priority = prio,
       dependencies = map (\<lambda>d. wid @ d) deps \<rparr>"

definition equipment_checkout_tasks :: "WorkflowTask list" where
  "equipment_checkout_tasks =
     (let w = ''WF_EQUIPMENT_CHECKOUT'' in
      [ new_task w ''_001'' ''Validate Equipment Request'' ''validation'' ''system'' HIGH [],
        new_task w ''_002'' ''Check Work Order'' ''validation'' ''system'' HIGH [''_001''],
        new_task w ''_003'' ''Approve High Value Items'' ''approval'' ''supervisor'' MEDIUM [''_002''],
        new_task w ''_004'' ''Record Equipment Checkout'' ''data_entry'' ''facilities_assistant'' HIGH
          [''_003''],
        new_task w ''_005'' ''Schedule Return Reminder'' ''scheduling'' ''system'' LOW [''_004''] ])"

definition inventory_reorder_tasks :: "WorkflowTask list" where
  "inventory_reorder_tasks =
     (let w = ''WF_INVENTORY_REORDER'' in
      [ new_task w ''_001'' ''Monitor Stock Levels'' ''monitoring'' ''system'' MEDIUM [],
        new_task w ''_002'' ''Generate Purchase Requisition'' ''documentation''
          ''facilities_assistant'' HIGH [''_001''],
        new_task w ''_003'' ''Budget Approval'' ''approval'' ''finance_manager'' HIGH [''_002''],
        new_task w ''_004'' ''Submit Purchase Order'' ''procurement'' ''procurement_team'' MEDIUM
          [''_003''],
        new_task w ''_005'' ''Update Inventory Records'' ''data_entry'' ''facilities_assistant'' HIGH
          [''_004''] ])"

definition compliance_remediation_tasks :: "WorkflowTask list" where
  "compliance_remediation_tasks =
     (let w = ''WF_COMPLIANCE_REMEDIATION'' in
      [ new_task w ''_001'' ''Identify Compliance Gaps'' ''analysis'' ''system'' HIGH [],
        new_task w ''_002'' ''Create Remediation Plan'' ''planning'' ''facilities_manager'' HIGH
          [''_001''],
        new_task w ''_003'' ''Implement Corrections'' ''execution'' ''facilities_team'' CRITICAL
          [''_002''],
        new_task w ''_004'' ''Verify Compliance'' ''verification'' ''compliance_officer'' HIGH
          [''_003''],
        new_task w ''_005'' ''Document Resolution'' ''documentation'' ''facilities_assistant'' MEDIUM
          [''_004''] ])"

definition initialize_workflows :: "processor \<Rightarrow> processor" where
  "initialize_workflows st =
     register_tasks compliance_remediation_tasks
       (register_tasks inventory_reorder_tasks
          (register_tasks equipment_checkout_tasks st))"

definition new_rule ::
    "string \<Rightarrow> string \<Rightarrow> BusinessRuleType \<Rightarrow> string \<Rightarrow> condition \<Rightarrow> string \<Rightarrow> Priority
      \<Rightarrow> BusinessRule" where
  "new_rule rid name ty descr cond act prio =
     \<lparr> rule_id = rid, rule_name = name, rule_type = ty, description = descr,
       condition = cond, action = act, rule_priority = prio, enabled = True,
       last_executed = None, execution_count = 0 \<rparr>"

definition BR001 :: BusinessRule where
  "BR001 =
     new_rule ''BR001'' ''High Value Equipment Approval'' APPROVAL
       ''Equipment over R1000 requires supervisor approval''
       (Parsed (PCompare (PName ''item_value'') CmpGt (PConst (VInt 1000))))
       ''create_approval_request'' HIGH"

definition BR002 :: BusinessRule where
  "BR002 =
     new_rule ''BR002'' ''Critical Stock Alert'' NOTIFICATION
       ''Alert when inventory reaches critical levels''
       (Parsed (PCompare (PName ''stock_level'') CmpLtE (PConst (VInt 5))))
       ''send_critical_stock_alert'' CRITICAL"

definition BR003 :: BusinessRule where
  "BR003 =
     new_rule ''BR003'' ''Overdue Equipment Escalation'' ESCALATION
       ''Escalate overdue equipment returns''
       (Parsed (PCompare (PName ''days_overdue'') CmpGtE (PConst (VInt 7))))
       ''escalate_to_supervisor'' HIGH"

definition BR004 :: BusinessRule where
  "BR004 =
     new_rule ''BR004'' ''Work Order Validation'' VALIDATION
       ''Validate work order format and requirements''
       (Parsed (POr (PName ''wo_req_missing'') (PName ''wo_req_invalid'')))
       ''require_valid_work_order'' MEDIUM"

definition BR005 :: BusinessRule where
  "BR005 =
     new_rule ''BR005'' ''Auto Reorder Trigger'' AUTOMATION
       ''Automatically trigger reorder for low stock items''
       (Parsed (PAnd (PCompare (PName ''stock_level'') CmpLtE (PName ''reorder_level''))
                     (PName ''auto_reorder_enabled'')))
       ''create_purchase_requisition'' MEDIUM"

definition BR006 :: BusinessRule where
  "BR006 =
     new_rule ''BR006'' ''Compliance Monitoring'' NOTIFICATION
       ''Monitor and alert on compliance violations''
       (Parsed (PCompare (PName ''compliance_percentage'') CmpLt (PConst (VInt 80))))
       ''send_compliance_alert'' HIGH"

definition BR007 :: BusinessRule where
  "BR007 =
     new_rule ''BR007'' ''Bulk Checkout Approval'' APPROVAL
       ''Bulk equipment checkout requires approval''
       (Parsed (PCompare (PName ''checkout_quantity'') CmpGt (PConst (VInt 5))))
       ''require_bulk_checkout_approval'' MEDIUM"

definition BR008 :: BusinessRule where
  "BR008 =
     new_rule ''BR008'' ''Safety Equipment Priority'' AUTOMATION
       ''Prioritize safety equipment requests''
       (Parsed (PCompare (PName ''category'') CmpEq (PConst (VStr ''Safety''))))
       ''set_high_priority'' HIGH"

definition default_rules :: "BusinessRule list" where
  "default_rules = [BR001, BR002, BR003, BR004, BR005, BR006, BR007, BR008]"

definition setup_default_business_rules :: "processor \<Rightarrow> processor" where
  "setup_default_business_rules st =
     st\<lparr>business_rules := foldl (\<lambda>m r. m(rule_id r \<mapsto> r)) (business_rules st) default_rules\<rparr>"

text \<open>\<^verbatim>\<open>BusinessLogicProcessor.__init__\<close>.\<close>

definition new_processor :: processor where
  "new_processor =
     initialize_workflows (setup_default_business_rules
       \<lparr> business_rules = Map.empty, workflow_tasks = [], approval_requests = Map.empty,
         rule_execution_history = [], workflow_history = [],
         derivco_business_config = load_derivco_business_config \<rparr>)"

subsection \<open>Properties of the specification, and inputs for the examples\<close>

text \<open>Whether a rule id names an enabled rule of the catalog.\<close>

definition rule_enabled :: "processor \<Rightarrow> string \<Rightarrow> bool" where
  "rule_enabled st rid = (case business_rules st rid of Some r \<Rightarrow> enabled r | None \<Rightarrow> False)"

text \<open>Whether a condition calls \<^verbatim>\<open>is_weekend()\<close>, the one function that reads the clock.\<close>

fun calls_is_weekend :: "expr \<Rightarrow> bool" where
  "calls_is_weekend (PName x) = False"
| "calls_is_weekend (PConst v) = False"
| "calls_is_weekend (PCompare l op r) = (calls_is_weekend l \<or> calls_is_weekend r)"
| "calls_is_weekend (PAnd l r) = (calls_is_weekend l \<or> calls_is_weekend r)"
| "calls_is_weekend (POr l r) = (calls_is_weekend l \<or> calls_is_weekend r)"
| "calls_is_weekend (PNot e) = calls_is_weekend e"
| "calls_is_weekend (PCall p args) = (p = Is_weekend \<or> list_ex calls_is_weekend args)"

definition reads_clock :: "condition \<Rightarrow> bool" where
  "reads_clock c = (case c of Parsed e \<Rightarrow> calls_is_weekend e | Unparsable \<Rightarrow> False)"

text \<open>Whether every task that \<open>t\<close> depends on is stored with status \<open>COMPLETED\<close>.\<close>

definition deps_completed :: "processor \<Rightarrow> WorkflowTask \<Rightarrow> bool" where
  "deps_completed st t =
     list_all (\<lambda>d. case map_of (workflow_tasks st) d of
                     Some t' \<Rightarrow> status t' = COMPLETED
                   | None \<Rightarrow> False)
       (dependencies t)"



text \<open>The number of task results that a run has collected.\<close>

definition results_count :: "execution_result \<Rightarrow> nat" where
  "results_count er =
     length (tasks_executed er) + length (tasks_pending er) + length (tasks_failed er)"

text \<open>The task types whose result is \<^verbatim>\<open>'pending'\<close>.\<close>

definition waits :: "WorkflowTask \<Rightarrow> bool" where
  "waits t = (task_type t = ''approval'' \<or> task_type t = ''procurement'')"

text \<open>The dict \<^verbatim>\<open>processing_results\<close> as the batch functions first build it.\<close>

definition initial_processing_results :: processing_results where
  "initial_processing_results =
     \<lparr> rules_processed = 0, rules_triggered = 0, actions_executed = 0, rule_results = [] \<rparr>"




text \<open>A rule without its statistics.\<close>

definition rule_core :: "BusinessRule \<Rightarrow> BusinessRule" where
  "rule_core r = r\<lparr>last_executed := None, execution_count := 0\<rparr>"

text \<open>
  Two processors with the same configuration and the same rules up to the statistics.
\<close>

definition same_catalog :: "processor \<Rightarrow> processor \<Rightarrow> bool" where
  "same_catalog st st' =
     (derivco_business_config st' = derivco_business_config st
      \<and> (\<lambda>k. map_option rule_core (business_rules st' k))
          = (\<lambda>k. map_option rule_core (business_rules st k)))"

text \<open>
  The reference for a batch: every rule id of the batch that is in the catalog is
  evaluated on its own, against the same context, in the processor as it is before the
  batch. \<open>amb 0\<close> is what the next evaluation reads from the clock.
\<close>

fun isolated_results ::
    "(nat \<Rightarrow> ambient) \<Rightarrow> string list \<Rightarrow> eval_context \<Rightarrow> processor \<Rightarrow> evaluation_result list"
where
  "isolated_results amb [] ctx st = []"
| "isolated_results amb (rid # rids) ctx st =
     (if business_rules st rid \<noteq> None
      then fst (evaluate_business_rule (amb 0) rid ctx st)
             # isolated_results (\<lambda>k. amb (Suc k)) rids ctx st
      else isolated_results amb rids ctx st)"

text \<open>
  What the conditions of the rules of a batch give for the context: for every rule id of
  the batch that is in the catalog, the value of \<^verbatim>\<open>_evaluate_condition\<close> on the rule's
  condition when the rule is enabled, and nothing when it is disabled.
\<close>

fun batch_conditions ::
    "(nat \<Rightarrow> ambient) \<Rightarrow> string list \<Rightarrow> eval_context \<Rightarrow> processor \<Rightarrow> bool option list"
where
  "batch_conditions amb [] ctx st = []"
| "batch_conditions amb (rid # rids) ctx st =
     (case business_rules st rid of
        None \<Rightarrow> batch_conditions amb rids ctx st
      | Some r \<Rightarrow>
          (if enabled r
           then Some (evaluate_condition (derivco_business_config st) (weekday (amb 0))
                        (condition r) ctx)
           else None)
            # batch_conditions (\<lambda>k. amb (Suc k)) rids ctx st)"


text \<open>A clock that stands still on a Monday, and one reading on a Saturday.\<close>

definition monday :: "nat \<Rightarrow> ambient" where
  "monday k = \<lparr> weekday = 0, stamp = ''20240101_120000'', uuid8 = ''3f2a9c01'' \<rparr>"

definition saturday :: ambient where
  "saturday = \<lparr> weekday = 5, stamp = ''20240106_120000'', uuid8 = ''7be4d210'' \<rparr>"

text \<open>A processor with one more rule, whose condition is \<^verbatim>\<open>is_weekend()\<close>.\<close>

definition weekend_processor :: processor where
  "weekend_processor =
     new_processor\<lparr>business_rules := (business_rules new_processor)(''BR009'' \<mapsto>
       new_rule ''BR009'' ''Weekend Request'' NOTIFICATION ''Requests made on a weekend''
         (Parsed (PCall Is_weekend [])) ''set_high_priority'' LOW)\<rparr>"


section \<open>Rule evaluation: what one call does\<close>

lemma execute_rule_action_frame:
  "business_rules (snd (execute_rule_action amb r ctx st)) = business_rules st"
  "derivco_business_config (snd (execute_rule_action amb r ctx st)) = derivco_business_config st"
  "rule_execution_history (snd (execute_rule_action amb r ctx st)) = rule_execution_history st"
  "workflow_tasks (snd (execute_rule_action amb r ctx st)) = workflow_tasks st"
  by (simp_all add: execute_rule_action_def create_approval_request_def Let_def)

lemma evaluate_not_met:
  assumes "business_rules st rid = Some r" "enabled r"
    "\<not> evaluate_condition (derivco_business_config st) (weekday amb) (condition r) ctx"
  shows "evaluate_business_rule amb rid ctx st =
     (initial_result rid r ctx,
      st\<lparr>rule_execution_history := rule_execution_history st @ [initial_result rid r ctx]\<rparr>)"
proof -
  have "(initial_result rid r ctx)\<lparr>condition_met := Some False\<rparr> = initial_result rid r ctx"
    by (simp add: initial_result_def)
  with assms show ?thesis
    by (simp add: evaluate_business_rule_def Let_def)
qed

lemma evaluate_rules_after:
  "business_rules (snd (evaluate_business_rule amb rid ctx st)) k =
     (case business_rules st rid of
        Some r \<Rightarrow>
          if k = rid \<and> enabled r
             \<and> evaluate_condition (derivco_business_config st) (weekday amb) (condition r) ctx
          then Some (r\<lparr>last_executed := Some (stamp amb),
                       execution_count := execution_count r + 1\<rparr>)
          else business_rules st k
      | None \<Rightarrow> business_rules st k)"
  by (simp add: evaluate_business_rule_def Let_def split_beta execute_rule_action_frame
      split: option.splits)

lemma evaluate_config:
  "derivco_business_config (snd (evaluate_business_rule amb rid ctx st))
     = derivco_business_config st"
  by (simp add: evaluate_business_rule_def Let_def split_beta execute_rule_action_frame
      split: option.splits)

lemma evaluate_evaluated:
  "evaluated (fst (evaluate_business_rule amb rid ctx st)) = rule_enabled st rid"
  by (simp add: evaluate_business_rule_def rule_enabled_def initial_result_def Let_def split_beta
      split: option.splits)

lemma evaluate_res_rule_id:
  "res_rule_id (fst (evaluate_business_rule amb rid ctx st)) = rid"
  by (simp add: evaluate_business_rule_def initial_result_def Let_def split_beta
      split: option.splits)

lemma evaluate_condition_met:
  "condition_met (fst (evaluate_business_rule amb rid ctx st)) =
     (case business_rules st rid of
        Some r \<Rightarrow>
          if enabled r
          then Some (evaluate_condition (derivco_business_config st) (weekday amb)
                       (condition r) ctx)
          else None
      | None \<Rightarrow> None)"
  by (simp add: evaluate_business_rule_def initial_result_def Let_def split_beta
      split: option.splits)

lemma rule_enabled_after_evaluate:
  "rule_enabled (snd (evaluate_business_rule amb rid ctx st)) k = rule_enabled st k"
  by (simp add: rule_enabled_def evaluate_rules_after split: option.splits)

lemma present_after_evaluate:
  "(business_rules (snd (evaluate_business_rule amb rid ctx st)) k \<noteq> None)
     = (business_rules st k \<noteq> None)"
  by (simp add: evaluate_rules_after split: option.splits)

lemma count_after_evaluate:
  assumes "business_rules st k = Some r"
  shows "\<exists>r'. business_rules (snd (evaluate_business_rule amb rid ctx st)) k = Some r'
     \<and> execution_count r \<le> execution_count r'
     \<and> enabled r' = enabled r \<and> condition r' = condition r"
  using assms by (auto simp add: evaluate_rules_after split: option.splits)

subsection \<open>The processor as constructed\<close>

lemma new_processor_rules:
  "business_rules new_processor = foldl (\<lambda>m r. m(rule_id r \<mapsto> r)) Map.empty default_rules"
  by (simp add: new_processor_def initialize_workflows_def register_tasks_def
      setup_default_business_rules_def)

lemma new_processor_config:
  "derivco_business_config new_processor = load_derivco_business_config"
  by (simp add: new_processor_def initialize_workflows_def register_tasks_def
      setup_default_business_rules_def)

lemma rule_ids:
  "rule_id BR001 = ''BR001''" "rule_id BR002 = ''BR002''" "rule_id BR003 = ''BR003''"
  "rule_id BR004 = ''BR004''" "rule_id BR005 = ''BR005''" "rule_id BR006 = ''BR006''"
  "rule_id BR007 = ''BR007''" "rule_id BR008 = ''BR008''"
  by (simp_all add: BR001_def BR002_def BR003_def BR004_def BR005_def BR006_def BR007_def
      BR008_def new_rule_def)

lemma new_processor_BR002:
  "business_rules new_processor ''BR002'' = Some BR002"
  by (simp add: new_processor_rules default_rules_def rule_ids)

lemma BR002_fields:
  "enabled BR002"
  "condition BR002 = Parsed (PCompare (PName ''stock_level'') CmpLtE (PConst (VInt 5)))"
  "action BR002 = ''send_critical_stock_alert''"
  by (simp_all add: BR002_def new_rule_def)

section \<open>Claims about rule evaluation\<close>

text \<open>
  C10. For a rule id that is not in the catalog, \<^verbatim>\<open>evaluate_business_rule\<close> returns a
  result with \<open>evaluated = False\<close> and the error message, and the processor it leaves is
  the processor it was given: no history entry, no approval request, no change of any rule.
\<close>

theorem unknown_rule_changes_nothing:
  assumes "business_rules st rid = None"
  shows "snd (evaluate_business_rule amb rid ctx st) = st
       \<and> evaluated (fst (evaluate_business_rule amb rid ctx st)) = False
       \<and> res_error (fst (evaluate_business_rule amb rid ctx st))
           = Some (''Business rule '' @ rid @ '' not found'')"
  using assms by (simp add: evaluate_business_rule_def)

theorem unknown_rule_changes_nothing_witness:
  "business_rules new_processor ''BR999'' = None
   \<and> snd (evaluate_business_rule (monday 0) ''BR999'' Map.empty new_processor) = new_processor
   \<and> evaluated (fst (evaluate_business_rule (monday 0) ''BR999'' Map.empty new_processor)) = False
   \<and> res_error (fst (evaluate_business_rule (monday 0) ''BR999'' Map.empty new_processor))
       = Some ''Business rule BR999 not found''"
proof -
  have h: "business_rules new_processor ''BR999'' = None"
    by (simp add: new_processor_rules default_rules_def rule_ids)
  show ?thesis
    using h unknown_rule_changes_nothing [OF h, of "monday 0" Map.empty] by simp
qed

text \<open>
  On the conditions of the rule grammar: when the evaluation raises one of the modelled
  exceptions, \<^verbatim>\<open>_evaluate_condition\<close> returns \<open>False\<close>; the caller then returns the
  result dict as first built (condition not met, no actions, no error key) and only
  appends it to the history. Conditions outside the grammar, exceptions that
  \<^verbatim>\<open>except Exception\<close> does not catch, and evaluations that do not return are beyond
  this model, so nothing is said here about every string that \<^verbatim>\<open>eval\<close> may be given.
\<close>

lemma raising_condition_reported_as_false:
  assumes "business_rules st rid = Some r" and "enabled r"
    and "eval_builtin (derivco_business_config st) (weekday amb) (condition r) (safe_globals ctx)
           = Inl e"
  shows "evaluate_condition (derivco_business_config st) (weekday amb) (condition r) ctx = False
       \<and> fst (evaluate_business_rule amb rid ctx st) = initial_result rid r ctx
       \<and> condition_met (initial_result rid r ctx) = Some False
       \<and> res_error (initial_result rid r ctx) = None
       \<and> actions_triggered (initial_result rid r ctx) = Some []
       \<and> snd (evaluate_business_rule amb rid ctx st)
           = st\<lparr>rule_execution_history := rule_execution_history st @ [initial_result rid r ctx]\<rparr>"
proof -
  have f: "\<not> evaluate_condition (derivco_business_config st) (weekday amb) (condition r) ctx"
    using assms(3) by (simp add: evaluate_condition_def)
  show ?thesis
    using f evaluate_not_met [OF assms(1) assms(2) f] by (simp add: initial_result_def)
qed

lemma raising_condition_reported_as_false_instance:
  "business_rules new_processor ''BR002'' = Some BR002
   \<and> enabled BR002
   \<and> eval_builtin (derivco_business_config new_processor) (weekday (monday 0))
        (condition BR002) (safe_globals [''stock_level'' \<mapsto> VStr ''many''])
       = Inl TypeError
   \<and> evaluate_condition (derivco_business_config new_processor) (weekday (monday 0))
        (condition BR002) [''stock_level'' \<mapsto> VStr ''many''] = False
   \<and> fst (evaluate_business_rule (monday 0) ''BR002'' [''stock_level'' \<mapsto> VStr ''many'']
          new_processor)
       = initial_result ''BR002'' BR002 [''stock_level'' \<mapsto> VStr ''many'']
   \<and> snd (evaluate_business_rule (monday 0) ''BR002'' [''stock_level'' \<mapsto> VStr ''many'']
          new_processor)
       = new_processor\<lparr>rule_execution_history := rule_execution_history new_processor
           @ [initial_result ''BR002'' BR002 [''stock_level'' \<mapsto> VStr ''many'']]\<rparr>"
proof -
  have h1: "business_rules new_processor ''BR002'' = Some BR002"
    by (rule new_processor_BR002)
  have h2: "enabled BR002"
    by (rule BR002_fields)
  have h3: "eval_builtin (derivco_business_config new_processor) (weekday (monday 0))
        (condition BR002) (safe_globals [''stock_level'' \<mapsto> VStr ''many''])
       = Inl TypeError"
    by (simp add: BR002_fields eval_builtin_def load_name_def safe_globals_def
        business_functions_def safe_builtins_def py_less_eq_def)
  show ?thesis
    using h1 h2 h3 raising_condition_reported_as_false [OF h1 h2 h3] by simp
qed

subsection \<open>The clock is read by \<^verbatim>\<open>is_weekend()\<close> only\<close>

lemma call_predicate_clock:
  "p \<noteq> Is_weekend \<Longrightarrow> call_predicate cfg wd1 p vs = call_predicate cfg wd2 p vs"
  by (cases "(cfg, wd1, p, vs)" rule: call_predicate.cases) auto

lemma py_eval_clock:
  "\<not> calls_is_weekend e \<Longrightarrow> py_eval cfg wd1 g e = py_eval cfg wd2 g e"
  "\<not> list_ex calls_is_weekend es \<Longrightarrow> eval_args cfg wd1 g es = eval_args cfg wd2 g es"
proof (induction cfg wd1 g e and cfg wd1 g es rule: py_eval_eval_args.induct)
  case (7 cfg wd g p args)
  then show ?case
    by (simp add: call_predicate_clock [of p cfg wd _ wd2] split: sum.splits)
qed (auto split: sum.splits)

lemma evaluate_condition_clock:
  assumes "wd1 = wd2 \<or> \<not> reads_clock c"
  shows "evaluate_condition cfg wd1 c ctx = evaluate_condition cfg wd2 c ctx"
proof (cases c)
  case (Parsed e)
  with assms show ?thesis
    by (auto simp add: evaluate_condition_def eval_builtin_def reads_clock_def
        py_eval_clock(1) [of e cfg wd1 _ wd2])
next
  case Unparsable
  then show ?thesis by (simp add: evaluate_condition_def eval_builtin_def)
qed

lemma weekend_BR009:
  "business_rules weekend_processor ''BR009'' =
     Some (new_rule ''BR009'' ''Weekend Request'' NOTIFICATION ''Requests made on a weekend''
             (Parsed (PCall Is_weekend [])) ''set_high_priority'' LOW)"
  by (simp add: weekend_processor_def)

lemma absent_name_raises:
  assumes "safe_globals ctx x = None" and "ctx ''__builtins__'' = None"
  shows "py_eval cfg wd (safe_globals ctx) (PName x) = Inl (NameError x)"
  using assms by (simp add: load_name_def safe_globals_def business_functions_def)


text \<open>
  C6. The claim is that the same rule and the same context always give the same
  \<open>condition_met\<close>. A condition may call \<^verbatim>\<open>is_weekend()\<close>, which reads the clock: the
  rule below is not met on a Monday and met on the following Saturday, with the same
  (empty) context.
\<close>

theorem condition_met_depends_on_clock:
  "condition_met (fst (evaluate_business_rule (monday 0) ''BR009'' Map.empty weekend_processor))
     = Some False
   \<and> condition_met (fst (evaluate_business_rule saturday ''BR009'' Map.empty
        (snd (evaluate_business_rule (monday 0) ''BR009'' Map.empty weekend_processor))))
     = Some True"
  by (simp add: evaluate_condition_met evaluate_rules_after evaluate_config weekend_BR009
      new_rule_def evaluate_condition_def eval_builtin_def monday_def saturday_def)

text \<open>
  C6, amended. Evaluating a rule a second time, in the processor that the first evaluation
  left, against the same context gives the same \<open>condition_met\<close>, provided that both
  evaluations read the same day of the week or the condition does not call
  \<^verbatim>\<open>is_weekend()\<close>. Nothing that an evaluation changes (history, counters, approval
  requests) influences the value.
\<close>

theorem condition_met_repeats:
  assumes "business_rules st rid = Some r"
    and "weekday amb1 = weekday amb2 \<or> \<not> reads_clock (condition r)"
  shows "condition_met (fst (evaluate_business_rule amb2 rid ctx
            (snd (evaluate_business_rule amb1 rid ctx st))))
       = condition_met (fst (evaluate_business_rule amb1 rid ctx st))"
proof -
  obtain r' where r': "business_rules (snd (evaluate_business_rule amb1 rid ctx st)) rid = Some r'"
      "enabled r' = enabled r" "condition r' = condition r"
    using count_after_evaluate [OF assms(1), of amb1 rid ctx] by blast
  have "evaluate_condition (derivco_business_config st) (weekday amb2) (condition r) ctx
      = evaluate_condition (derivco_business_config st) (weekday amb1) (condition r) ctx"
    using assms(2) evaluate_condition_clock [of "weekday amb2" "weekday amb1" "condition r"]
    by auto
  then show ?thesis
    using assms(1) r' by (simp add: evaluate_condition_met evaluate_config)
qed

theorem condition_met_repeats_witness:
  "business_rules new_processor ''BR002'' = Some BR002
   \<and> (weekday (monday 0) = weekday saturday \<or> \<not> reads_clock (condition BR002))
   \<and> condition_met (fst (evaluate_business_rule saturday ''BR002'' [''stock_level'' \<mapsto> VInt 3]
        (snd (evaluate_business_rule (monday 0) ''BR002'' [''stock_level'' \<mapsto> VInt 3]
               new_processor))))
     = condition_met (fst (evaluate_business_rule (monday 0) ''BR002''
         [''stock_level'' \<mapsto> VInt 3] new_processor))
   \<and> condition_met (fst (evaluate_business_rule (monday 0) ''BR002''
         [''stock_level'' \<mapsto> VInt 3] new_processor)) = Some True"
proof -
  have h1: "business_rules new_processor ''BR002'' = Some BR002"
    by (rule new_processor_BR002)
  have h2: "weekday (monday 0) = weekday saturday \<or> \<not> reads_clock (condition BR002)"
    by (simp add: BR002_fields reads_clock_def)
  have h3: "condition_met (fst (evaluate_business_rule (monday 0) ''BR002''
         [''stock_level'' \<mapsto> VInt 3] new_processor)) = Some True"
    by (simp add: evaluate_condition_met h1 BR002_fields new_processor_config
        evaluate_condition_def eval_builtin_def load_name_def safe_globals_def
        business_functions_def py_less_eq_def)
  show ?thesis
    using h1 h2 h3 condition_met_repeats [OF h1 h2, of "[''stock_level'' \<mapsto> VInt 3]"]
    by simp
qed




text \<open>
  A name that the evaluator binds itself is not an absent variable, even when the context
  does not have it: \<^verbatim>\<open>max != 5\<close> holds for the empty context.
\<close>

lemma registered_name_is_bound:
  "Map.empty ''max'' = (None :: pyval option)
   \<and> evaluate_condition cfg wd (Parsed (PCompare (PName ''max'') CmpNotEq (PConst (VInt 5))))
        Map.empty = True"
  by (simp add: evaluate_condition_def eval_builtin_def load_name_def safe_globals_def
      business_functions_def safe_builtins_def py_eq_def)



section \<open>Workflow execution: what one iteration does\<close>

lemma create_approval_request_frame:
  "business_rules (snd (create_approval_request amb ro ctx st)) = business_rules st"
  "workflow_tasks (snd (create_approval_request amb ro ctx st)) = workflow_tasks st"
  "derivco_business_config (snd (create_approval_request amb ro ctx st))
     = derivco_business_config st"
  "workflow_history (snd (create_approval_request amb ro ctx st)) = workflow_history st"
  "rule_execution_history (snd (create_approval_request amb ro ctx st))
     = rule_execution_history st"
  by (simp_all add: create_approval_request_def Let_def split: option.splits)

lemma execute_workflow_task_frame:
  "business_rules (snd (execute_workflow_task amb t ctx st)) = business_rules st"
  "workflow_tasks (snd (execute_workflow_task amb t ctx st)) = workflow_tasks st"
  "derivco_business_config (snd (execute_workflow_task amb t ctx st))
     = derivco_business_config st"
  by (simp_all add: execute_workflow_task_def execute_approval_task_def Let_def split_beta
      create_approval_request_frame)

lemma execute_workflow_task_status:
  "tr_status (fst (execute_workflow_task amb t ctx st))
     = (if waits t then ''pending'' else ''completed'')"
  by (simp add: execute_workflow_task_def waits_def Let_def split_beta running_result_def)


lemma loop_body_fst:
  "fst (loop_body a ctx i (er, st)) =
     (if waits (task_at st i)
      then er\<lparr>tasks_pending :=
                tasks_pending er @ [fst (execute_workflow_task a (task_at st i) ctx st)]\<rparr>
      else er\<lparr>tasks_executed :=
                tasks_executed er @ [fst (execute_workflow_task a (task_at st i) ctx st)]\<rparr>)"
  by (simp add: loop_body_def record_task_result_def split_beta execute_workflow_task_status)

lemma loop_body_tasks:
  "workflow_tasks (snd (loop_body a ctx i (er, st))) =
     (if waits (task_at st i) then workflow_tasks st
      else (workflow_tasks st)
             [i := (fst (workflow_tasks st ! i), (task_at st i)\<lparr>status := COMPLETED\<rparr>)])"
  by (simp add: loop_body_def record_task_result_def split_beta execute_workflow_task_status
      set_status_def execute_workflow_task_frame task_at_def)

lemma loop_body_rules:
  "business_rules (snd (loop_body a ctx i s)) = business_rules (snd s)"
  by (cases s)
    (simp add: loop_body_def record_task_result_def split_beta set_status_def
      execute_workflow_task_frame)

lemma run_tasks_rules:
  "business_rules (snd (run_tasks amb ctx is s)) = business_rules (snd s)"
  by (induction "is" arbitrary: amb s) (simp_all add: loop_body_rules)

lemma execute_workflow_rules:
  "business_rules (snd (execute_workflow amb wid context st)) = business_rules st"
  by (simp add: execute_workflow_def Let_def split_beta run_tasks_rules)

section \<open>Claims about batches and counters\<close>

lemma count_after_process_rules:
  assumes "business_rules st k = Some r"
  shows "\<exists>r'. business_rules (snd (process_rules amb rids ctx (pr, st))) k = Some r'
     \<and> execution_count r \<le> execution_count r'"
  using assms
proof (induction rids arbitrary: amb pr st r)
  case Nil
  then show ?case by simp
next
  case (Cons rid rids)
  show ?case
  proof (cases "business_rules st rid \<noteq> None")
    case True
    obtain r1 where r1:
        "business_rules (snd (evaluate_business_rule (amb 0) rid ctx st)) k = Some r1"
        "execution_count r \<le> execution_count r1"
      using count_after_evaluate [OF Cons.prems, of "amb 0" rid ctx] by blast
    obtain pr2 where step: "process_rules amb (rid # rids) ctx (pr, st)
        = process_rules (\<lambda>k. amb (Suc k)) rids ctx
            (pr2, snd (evaluate_business_rule (amb 0) rid ctx st))"
      using True by (simp add: Let_def split_beta)
    from Cons.IH [OF r1(1), of "\<lambda>k. amb (Suc k)" pr2] r1(2) show ?thesis
      unfolding step by force
  next
    case False
    then show ?thesis using Cons.IH [OF Cons.prems, of amb pr] by simp
  qed
qed

lemma new_processor_rule_map:
  "business_rules new_processor =
     [''BR001'' \<mapsto> BR001, ''BR002'' \<mapsto> BR002, ''BR003'' \<mapsto> BR003, ''BR004'' \<mapsto> BR004,
      ''BR005'' \<mapsto> BR005, ''BR006'' \<mapsto> BR006, ''BR007'' \<mapsto> BR007, ''BR008'' \<mapsto> BR008]"
  by (simp add: new_processor_rules default_rules_def rule_ids)

lemma default_rules_enabled:
  "enabled BR001" "enabled BR002" "enabled BR003" "enabled BR004"
  "enabled BR005" "enabled BR006" "enabled BR007" "enabled BR008"
  by (simp_all add: BR001_def BR002_def BR003_def BR004_def BR005_def BR006_def BR007_def
      BR008_def new_rule_def)

text \<open>
  C8. No operation of the processor lowers or resets a rule's \<open>execution_count\<close>: after
  \<^verbatim>\<open>evaluate_business_rule\<close>, after a batch, and after \<^verbatim>\<open>execute_workflow\<close>, every rule
  of the catalog is still there with a count that is at least what it was.
\<close>

theorem execution_count_never_decreases:
  assumes "business_rules st k = Some r"
  shows "(\<exists>r'. business_rules (snd (evaluate_business_rule amb rid ctx st)) k = Some r'
            \<and> execution_count r \<le> execution_count r')
       \<and> (\<exists>r'. business_rules (snd (process_rules clock rids ctx (pr, st))) k = Some r'
            \<and> execution_count r \<le> execution_count r')
       \<and> (\<exists>r'. business_rules (snd (execute_workflow clock wid context st)) k = Some r'
            \<and> execution_count r \<le> execution_count r')"
proof -
  have a: "\<exists>r'. business_rules (snd (evaluate_business_rule amb rid ctx st)) k = Some r'
            \<and> execution_count r \<le> execution_count r'"
    using count_after_evaluate [OF assms, of amb rid ctx] by blast
  have b: "\<exists>r'. business_rules (snd (process_rules clock rids ctx (pr, st))) k = Some r'
            \<and> execution_count r \<le> execution_count r'"
    by (rule count_after_process_rules [OF assms])
  have c: "\<exists>r'. business_rules (snd (execute_workflow clock wid context st)) k = Some r'
            \<and> execution_count r \<le> execution_count r'"
    using assms by (simp add: execute_workflow_rules)
  from a b c show ?thesis by blast
qed

theorem execution_count_never_decreases_witness:
  "business_rules new_processor ''BR002'' = Some BR002
   \<and> (\<exists>r'. business_rules (snd (evaluate_business_rule (monday 0) ''BR002''
               [''stock_level'' \<mapsto> VInt 3] new_processor)) ''BR002'' = Some r'
          \<and> execution_count BR002 \<le> execution_count r')
   \<and> (\<exists>r'. business_rules (snd (process_rules monday [''BR002'', ''BR005'']
               [''stock_level'' \<mapsto> VInt 3] (initial_processing_results, new_processor)))
             ''BR002'' = Some r'
          \<and> execution_count BR002 \<le> execution_count r')
   \<and> (\<exists>r'. business_rules (snd (execute_workflow monday ''WF_EQUIPMENT_CHECKOUT'' None
               new_processor)) ''BR002'' = Some r'
          \<and> execution_count BR002 \<le> execution_count r')"
proof -
  have h: "business_rules new_processor ''BR002'' = Some BR002"
    by (rule new_processor_BR002)
  show ?thesis
    using h execution_count_never_decreases [OF h, of "monday 0" "''BR002''"
        "[''stock_level'' \<mapsto> VInt 3]" monday "[''BR002'', ''BR005'']"
        initial_processing_results "''WF_EQUIPMENT_CHECKOUT''" None]
    by simp
qed

subsection \<open>A batch evaluates each rule as if it were alone\<close>

lemma rule_core_fields:
  "rule_name (rule_core r) = rule_name r" "rule_type (rule_core r) = rule_type r"
  "enabled (rule_core r) = enabled r" "condition (rule_core r) = condition r"
  "action (rule_core r) = action r"
  by (simp_all add: rule_core_def)

lemma rule_core_eq_fields:
  assumes "rule_core r' = rule_core r"
  shows "rule_name r' = rule_name r" "rule_type r' = rule_type r" "enabled r' = enabled r"
    "condition r' = condition r" "action r' = action r"
  using assms rule_core_fields by metis+

lemma same_catalog_refl: "same_catalog st st"
  by (simp add: same_catalog_def)

lemma same_catalog_lookup:
  assumes "same_catalog st st'"
  shows "map_option rule_core (business_rules st' k) = map_option rule_core (business_rules st k)"
  using assms by (simp add: same_catalog_def) meson

lemma same_catalog_present:
  assumes "same_catalog st st'"
  shows "(business_rules st' k \<noteq> None) = (business_rules st k \<noteq> None)"
  using same_catalog_lookup [OF assms, of k] by (cases "business_rules st k"; cases "business_rules st' k") simp_all

lemma same_catalog_evaluate:
  assumes "same_catalog st st'"
  shows "same_catalog st (snd (evaluate_business_rule amb rid ctx st'))"
proof -
  have "map_option rule_core (business_rules (snd (evaluate_business_rule amb rid ctx st')) k)
      = map_option rule_core (business_rules st k)" for k
    using same_catalog_lookup [OF assms, of k] same_catalog_lookup [OF assms, of rid]
    by (auto simp add: evaluate_rules_after rule_core_def split: option.splits)
  moreover have "derivco_business_config (snd (evaluate_business_rule amb rid ctx st'))
      = derivco_business_config st"
    using assms by (simp add: evaluate_config same_catalog_def)
  ultimately show ?thesis
    by (simp add: same_catalog_def)
qed

lemma execute_rule_action_messages:
  assumes "action r' = action r"
  shows "fst (execute_rule_action amb r' ctx st') = fst (execute_rule_action amb r ctx st)"
  using assms
  by (simp add: execute_rule_action_def create_approval_request_def Let_def split_beta)

lemma same_catalog_result:
  assumes "same_catalog st st'"
  shows "fst (evaluate_business_rule amb rid ctx st') = fst (evaluate_business_rule amb rid ctx st)"
proof (cases "business_rules st rid")
  case None
  with same_catalog_lookup [OF assms, of rid] have "business_rules st' rid = None"
    by simp
  with None show ?thesis by (simp add: evaluate_business_rule_def)
next
  case (Some r)
  with same_catalog_lookup [OF assms, of rid] obtain r' where r': "business_rules st' rid = Some r'"
      "rule_core r' = rule_core r"
    by auto
  note f = rule_core_eq_fields [OF r'(2)]
  have c: "derivco_business_config st' = derivco_business_config st"
    using assms by (simp add: same_catalog_def)
  show ?thesis
    using execute_rule_action_messages [OF f(5), of amb ctx st' st]
    by (simp add: evaluate_business_rule_def Some r'(1) f c initial_result_def Let_def split_beta)
qed

lemma evaluate_history:
  "rule_execution_history (snd (evaluate_business_rule amb rid ctx st))
     = rule_execution_history st
         @ (if evaluated (fst (evaluate_business_rule amb rid ctx st))
            then [fst (evaluate_business_rule amb rid ctx st)] else [])"
  by (simp add: evaluate_business_rule_def initial_result_def Let_def split_beta
      execute_rule_action_frame split: option.splits)

lemma process_rules_isolated:
  assumes "same_catalog st0 st"
  shows "rule_results (fst (process_rules amb rids ctx (pr, st)))
           = rule_results pr @ isolated_results amb rids ctx st0
       \<and> rule_execution_history (snd (process_rules amb rids ctx (pr, st)))
           = rule_execution_history st @ filter evaluated (isolated_results amb rids ctx st0)"
  using assms
proof (induction rids arbitrary: amb pr st)
  case Nil
  then show ?case by simp
next
  case (Cons rid rids)
  show ?case
  proof (cases "business_rules st rid \<noteq> None")
    case True
    then have p0: "business_rules st0 rid \<noteq> None"
      using same_catalog_present [OF Cons.prems, of rid] by simp
    define res where "res = fst (evaluate_business_rule (amb 0) rid ctx st)"
    define st' where "st' = snd (evaluate_business_rule (amb 0) rid ctx st)"
    have res0: "res = fst (evaluate_business_rule (amb 0) rid ctx st0)"
      unfolding res_def by (rule same_catalog_result [OF Cons.prems])
    have sc: "same_catalog st0 st'"
      unfolding st'_def by (rule same_catalog_evaluate [OF Cons.prems])
    have h: "rule_execution_history st' = rule_execution_history st @ (if evaluated res then [res] else [])"
      unfolding st'_def res_def by (rule evaluate_history)
    obtain pr2 where step: "process_rules amb (rid # rids) ctx (pr, st)
        = process_rules (\<lambda>k. amb (Suc k)) rids ctx (pr2, st')"
      and pr2: "rule_results pr2 = rule_results pr @ [res]"
      using True by (simp add: Let_def split_beta res_def st'_def)
    have iso: "isolated_results amb (rid # rids) ctx st0
        = res # isolated_results (\<lambda>k. amb (Suc k)) rids ctx st0"
      using p0 res0 by simp
    show ?thesis
      unfolding step iso using Cons.IH [OF sc, of "\<lambda>k. amb (Suc k)" pr2]
      by (simp add: pr2 h)
  next
    case False
    then have p0: "business_rules st0 rid = None"
      using same_catalog_present [OF Cons.prems, of rid] by simp
    from False have "process_rules amb (rid # rids) ctx (pr, st) = process_rules amb rids ctx (pr, st)"
      by simp
    moreover from p0 have "isolated_results amb (rid # rids) ctx st0 = isolated_results amb rids ctx st0"
      by simp
    ultimately show ?thesis
      using Cons.IH [OF Cons.prems, of amb pr] by simp
  qed
qed

lemma isolated_results_flags:
  "list_all2 (\<lambda>rid res. res_rule_id res = rid \<and> evaluated res = rule_enabled st rid)
     (filter (\<lambda>rid. business_rules st rid \<noteq> None) rids) (isolated_results amb rids ctx st)"
  by (induction rids arbitrary: amb) (simp_all add: evaluate_evaluated evaluate_res_rule_id)

lemma isolated_results_conditions:
  "map condition_met (isolated_results amb rids ctx st) = batch_conditions amb rids ctx st"
  by (induction rids arbitrary: amb) (auto simp add: evaluate_condition_met split: option.splits)

text \<open>
  C7. In a batch over one context, what happens while one rule is evaluated, an error
  included, never keeps the other rules from being evaluated. The results that the batch
  appends are, in the order of the batch, exactly the results of evaluating each rule of
  the catalog on its own against the context in the processor as it was before the batch.
  So every rule id of the batch that is in the catalog has its result, every enabled
  rule's result has \<open>evaluated = True\<close>, its \<open>condition_met\<close> is what
  \<^verbatim>\<open>_evaluate_condition\<close> gives for the rule's condition and the context, and each
  evaluated result is appended to the history.
\<close>

theorem batch_evaluates_every_rule:
  "rule_results (fst (process_rules amb rids ctx (pr, st)))
     = rule_results pr @ isolated_results amb rids ctx st
   \<and> list_all2 (\<lambda>rid res. res_rule_id res = rid \<and> evaluated res = rule_enabled st rid)
        (filter (\<lambda>rid. business_rules st rid \<noteq> None) rids) (isolated_results amb rids ctx st)
   \<and> map condition_met (isolated_results amb rids ctx st) = batch_conditions amb rids ctx st
   \<and> rule_execution_history (snd (process_rules amb rids ctx (pr, st)))
       = rule_execution_history st @ filter evaluated (isolated_results amb rids ctx st)"
  using process_rules_isolated [OF same_catalog_refl, of amb rids ctx pr st]
    isolated_results_flags [of st rids amb ctx]
    isolated_results_conditions [of amb rids ctx st]
  by blast

text \<open>
  An instance: the context has no \<^verbatim>\<open>stock_level\<close>, so the conditions of BR002 and BR005
  raise NameError and count as not met; BR008 is still evaluated, and met.
\<close>

theorem batch_evaluates_every_rule_witness:
  "eval_builtin (derivco_business_config new_processor) 0 (condition BR002)
       (safe_globals [''category'' \<mapsto> VStr ''Safety'']) = Inl (NameError ''stock_level'')
   \<and> map res_rule_id (rule_results (fst (process_rules monday [''BR002'', ''BR005'', ''BR008'']
        [''category'' \<mapsto> VStr ''Safety''] (initial_processing_results, new_processor))))
      = [''BR002'', ''BR005'', ''BR008'']
   \<and> map evaluated (rule_results (fst (process_rules monday [''BR002'', ''BR005'', ''BR008'']
        [''category'' \<mapsto> VStr ''Safety''] (initial_processing_results, new_processor))))
      = [True, True, True]
   \<and> map condition_met (rule_results (fst (process_rules monday [''BR002'', ''BR005'', ''BR008'']
        [''category'' \<mapsto> VStr ''Safety''] (initial_processing_results, new_processor))))
      = [Some False, Some False, Some True]"
proof -
  let ?ctx = "[''category'' \<mapsto> VStr ''Safety'']"
  let ?rids = "[''BR002'', ''BR005'', ''BR008'']"
  let ?news = "isolated_results monday ?rids ?ctx new_processor"
  have e: "eval_builtin (derivco_business_config new_processor) 0 (condition BR002)
       (safe_globals ?ctx) = Inl (NameError ''stock_level'')"
    by (simp add: BR002_fields eval_builtin_def load_name_def safe_globals_def
        business_functions_def safe_builtins_def)
  have p: "filter (\<lambda>rid. business_rules new_processor rid \<noteq> None) ?rids = ?rids"
    by (simp add: new_processor_rule_map)
  have en: "rule_enabled new_processor ''BR002''" "rule_enabled new_processor ''BR005''"
      "rule_enabled new_processor ''BR008''"
    by (simp_all add: rule_enabled_def new_processor_rule_map default_rules_enabled)
  have bc: "batch_conditions monday ?rids ?ctx new_processor = [Some False, Some False, Some True]"
    by code_simp
  have t: "rule_results (fst (process_rules monday ?rids ?ctx
              (initial_processing_results, new_processor)))
             = rule_results initial_processing_results @ ?news"
      "list_all2 (\<lambda>rid res. res_rule_id res = rid
                    \<and> evaluated res = rule_enabled new_processor rid)
         (filter (\<lambda>rid. business_rules new_processor rid \<noteq> None) ?rids) ?news"
      "map condition_met ?news = batch_conditions monday ?rids ?ctx new_processor"
    using batch_evaluates_every_rule [of monday ?rids ?ctx initial_processing_results
        new_processor]
    by blast+
  from t(2) obtain a b c where abc: "?news = [a, b, c]"
      "res_rule_id a = ''BR002''" "res_rule_id b = ''BR005''" "res_rule_id c = ''BR008''"
      "evaluated a" "evaluated b" "evaluated c"
    unfolding p using en by (auto simp add: list_all2_Cons1)
  have r: "rule_results (fst (process_rules monday ?rids ?ctx
              (initial_processing_results, new_processor))) = ?news"
    unfolding t(1) by (simp add: initial_processing_results_def)
  have m: "map condition_met ?news = [Some False, Some False, Some True]"
    unfolding t(3) by (rule bc)
  show ?thesis
    unfolding r using e m abc(2-) unfolding abc(1) by simp
qed

section \<open>Workflow execution: what the loop does\<close>

lemma loop_body_length:
  "length (workflow_tasks (snd (loop_body a ctx i (er, st)))) = length (workflow_tasks st)"
  by (simp add: loop_body_tasks)

lemma loop_body_task_at:
  "task_at (snd (loop_body a ctx i (er, st))) j =
     (if j = i \<and> \<not> waits (task_at st i) \<and> i < length (workflow_tasks st)
      then (task_at st i)\<lparr>status := COMPLETED\<rparr>
      else task_at st j)"
proof (cases "i < length (workflow_tasks st)")
  case True
  then show ?thesis by (simp add: task_at_def loop_body_tasks nth_list_update)
next
  case False
  then show ?thesis by (simp add: task_at_def loop_body_tasks list_update_beyond)
qed

lemma loop_body_waits:
  "waits (task_at (snd (loop_body a ctx i (er, st))) j) = waits (task_at st j)"
  by (simp add: loop_body_task_at waits_def)


lemma loop_body_failed:
  "tasks_failed (fst (loop_body a ctx i (er, st))) = tasks_failed er"
  by (simp add: loop_body_fst)

lemma run_tasks_failed:
  "tasks_failed (fst (run_tasks amb ctx is (er, st))) = tasks_failed er"
proof (induction "is" arbitrary: amb er st)
  case Nil
  then show ?case by simp
next
  case (Cons i "is")
  obtain er1 st1 where s1: "loop_body (amb 0) ctx i (er, st) = (er1, st1)"
    by (cases "loop_body (amb 0) ctx i (er, st)")
  have "tasks_failed er1 = tasks_failed er"
    using loop_body_failed [of "amb 0" ctx i er st] by (simp add: s1)
  then show ?case
    using Cons.IH [of "\<lambda>k. amb (Suc k)" er1 st1] by (simp add: s1)
qed

lemma run_tasks_task_at:
  "task_at (snd (run_tasks amb ctx is (er, st))) j =
     (if j \<in> set is \<and> \<not> waits (task_at st j) \<and> j < length (workflow_tasks st)
      then (task_at st j)\<lparr>status := COMPLETED\<rparr>
      else task_at st j)"
proof (induction "is" arbitrary: amb er st)
  case Nil
  then show ?case by simp
next
  case (Cons i "is")
  obtain er1 st1 where s1: "loop_body (amb 0) ctx i (er, st) = (er1, st1)"
    by (cases "loop_body (amb 0) ctx i (er, st)")
  have t1: "\<And>j. task_at st1 j =
     (if j = i \<and> \<not> waits (task_at st i) \<and> i < length (workflow_tasks st)
      then (task_at st i)\<lparr>status := COMPLETED\<rparr>
      else task_at st j)"
    using loop_body_task_at [of "amb 0" ctx i er st] by (simp add: s1)
  have w1: "\<And>j. waits (task_at st1 j) = waits (task_at st j)"
    using loop_body_waits [of "amb 0" ctx i er st] by (simp add: s1)
  have l1: "length (workflow_tasks st1) = length (workflow_tasks st)"
    using loop_body_length [of "amb 0" ctx i er st] by (simp add: s1)
  show ?case
    using Cons.IH [of "\<lambda>k. amb (Suc k)" er1 st1]
    by (auto simp add: s1 w1 l1 t1)
qed

lemma run_tasks_pending:
  "(tasks_pending (fst (run_tasks amb ctx is (er, st))) \<noteq> []) =
     (tasks_pending er \<noteq> [] \<or> list_ex (\<lambda>i. waits (task_at st i)) is)"
proof (induction "is" arbitrary: amb er st)
  case Nil
  then show ?case by simp
next
  case (Cons i "is")
  obtain er1 st1 where s1: "loop_body (amb 0) ctx i (er, st) = (er1, st1)"
    by (cases "loop_body (amb 0) ctx i (er, st)")
  have w1: "\<And>j. waits (task_at st1 j) = waits (task_at st j)"
    using loop_body_waits [of "amb 0" ctx i er st] by (simp add: s1)
  have p1: "(tasks_pending er1 \<noteq> []) = (tasks_pending er \<noteq> [] \<or> waits (task_at st i))"
    using loop_body_fst [of "amb 0" ctx i er st] by (simp add: s1)
  show ?case
    using Cons.IH [of "\<lambda>k. amb (Suc k)" er1 st1] p1
    by (simp add: s1 w1)
qed

lemma run_tasks_count:
  "results_count (fst (run_tasks amb ctx is (er, st))) = results_count er + length is"
proof (induction "is" arbitrary: amb er st)
  case Nil
  then show ?case by simp
next
  case (Cons i "is")
  obtain er1 st1 where s1: "loop_body (amb 0) ctx i (er, st) = (er1, st1)"
    by (cases "loop_body (amb 0) ctx i (er, st)")
  have "results_count er1 = results_count er + 1"
    using loop_body_fst [of "amb 0" ctx i er st] by (simp add: s1 results_count_def)
  then show ?case
    using Cons.IH [of "\<lambda>k. amb (Suc k)" er1 st1] by (simp add: s1)
qed

lemma set_sorted_tasks: "set (sorted_tasks st wid) = set (tasks_of st wid)"
  by (simp add: sorted_tasks_def)

lemma sorted_tasks_empty: "(sorted_tasks st wid = []) = (tasks_of st wid = [])"
  using set_sorted_tasks [of st wid] by (metis set_empty)

section \<open>Claims about workflow execution\<close>

text \<open>
  C1. The claim is that no task is executed while one of its dependencies is not
  \<open>COMPLETED\<close>. The source sorts the tasks by their number of dependencies and runs every
  one of them; its dependency check is the statement \<^verbatim>\<open>pass\<close> under the comment
  ``In production, would check if dependent tasks are completed''. In the checkout
  workflow of a new processor, after the first three iterations task 003 (an approval)
  is still \<open>PENDING\<close>; the fourth iteration executes task 004, which depends on it, and
  marks it \<open>COMPLETED\<close>.
\<close>

theorem checkout_task_004_runs_while_003_is_pending:
  "sorted_tasks new_processor ''WF_EQUIPMENT_CHECKOUT'' = [0, 1, 2, 3, 4]
   \<and> (let s3 = run_tasks monday Map.empty [0, 1, 2]
                 (start_result ''WF_EQUIPMENT_CHECKOUT'' Map.empty, new_processor);
           t = task_at (snd s3) 3;
           s4 = loop_body (monday 3) Map.empty 3 s3
       in task_id t = ''WF_EQUIPMENT_CHECKOUT_004''
        \<and> dependencies t = [''WF_EQUIPMENT_CHECKOUT_003'']
        \<and> map_option status (map_of (workflow_tasks (snd s3)) ''WF_EQUIPMENT_CHECKOUT_003'')
            = Some PENDING
        \<and> \<not> deps_completed (snd s3) t
        \<and> map tr_task_id (tasks_executed (fst s4))
            = [''WF_EQUIPMENT_CHECKOUT_001'', ''WF_EQUIPMENT_CHECKOUT_002'',
               ''WF_EQUIPMENT_CHECKOUT_004'']
        \<and> status (task_at (snd s4) 3) = COMPLETED)"
  by code_simp

text \<open>
  C5. The claim is that running an approval or procurement task puts it \<open>ON_HOLD\<close>.
  After a run of the checkout workflow, its approval task 003 is listed as pending in
  the result, and its stored status is still \<open>PENDING\<close>.
\<close>

theorem approval_task_is_not_put_on_hold:
  "(let t = task_at new_processor 2;
        r = execute_workflow monday ''WF_EQUIPMENT_CHECKOUT'' None new_processor
    in task_id t = ''WF_EQUIPMENT_CHECKOUT_003''
     \<and> task_type t = ''approval''
     \<and> map tr_task_id (tasks_pending (fst r)) = [''WF_EQUIPMENT_CHECKOUT_003'']
     \<and> status (task_at (snd r) 2) = PENDING
     \<and> status (task_at (snd r) 2) \<noteq> ON_HOLD)"
  by code_simp

text \<open>
  C5, amended. Running a task of type approval or procurement gives a task result with
  status \<^verbatim>\<open>'pending'\<close>, which the loop appends to \<^verbatim>\<open>tasks_pending\<close> without touching
  the stored tasks; the run of a workflow that has such a task ends with the overall
  status \<^verbatim>\<open>'pending'\<close>, and the task is stored afterwards exactly as it was before.
\<close>

theorem waiting_task_is_reported_pending:
  assumes "i \<in> set (tasks_of st wid)" and "waits (task_at st i)"
  shows "tr_status (fst (execute_workflow_task a (task_at st i) ctx st)) = ''pending''
       \<and> tasks_pending (fst (loop_body a ctx i (er, st)))
           = tasks_pending er @ [fst (execute_workflow_task a (task_at st i) ctx st)]
       \<and> workflow_tasks (snd (loop_body a ctx i (er, st))) = workflow_tasks st
       \<and> er_status (fst (execute_workflow amb wid context st)) = ''pending''
       \<and> task_at (snd (execute_workflow amb wid context st)) i = task_at st i"
proof -
  have ne: "tasks_of st wid \<noteq> []"
    using assms(1) by auto
  have ex: "list_ex (\<lambda>i. waits (task_at st i)) (sorted_tasks st wid)"
    using assms by (auto simp add: list_ex_iff set_sorted_tasks)
  define c where "c = (case context of None \<Rightarrow> Map.empty | Some c \<Rightarrow> c)"
  define s where "s = run_tasks amb c (sorted_tasks st wid) (start_result wid c, st)"
  have f: "tasks_failed (fst s) = []"
    by (simp add: s_def run_tasks_failed start_result_def)
  have p: "tasks_pending (fst s) \<noteq> []"
    using ex by (simp add: s_def run_tasks_pending)
  have t: "task_at (snd s) i = task_at st i"
    using assms(2) by (simp add: s_def run_tasks_task_at)
  have run: "execute_workflow amb wid context st
      = ((fst s)\<lparr>er_status := overall_status (fst s)\<rparr>,
         (snd s)\<lparr>workflow_history := workflow_history (snd s)
            @ [(fst s)\<lparr>er_status := overall_status (fst s)\<rparr>]\<rparr>)"
    using ne by (simp add: execute_workflow_def Let_def split_beta s_def c_def)
  have st: "er_status (fst (execute_workflow amb wid context st)) = ''pending''"
    using f p by (simp add: run overall_status_def)
  have ta: "task_at (snd (execute_workflow amb wid context st)) i = task_at st i"
    using t by (simp add: run task_at_def)
  show ?thesis
    using assms(2) st ta
    by (simp add: execute_workflow_task_status loop_body_fst loop_body_tasks)
qed

theorem waiting_task_is_reported_pending_witness:
  "2 \<in> set (tasks_of new_processor ''WF_EQUIPMENT_CHECKOUT'')
   \<and> waits (task_at new_processor 2)
   \<and> tr_status (fst (execute_workflow_task (monday 2) (task_at new_processor 2) Map.empty
        new_processor)) = ''pending''
   \<and> workflow_tasks (snd (loop_body (monday 2) Map.empty 2
        (start_result ''WF_EQUIPMENT_CHECKOUT'' Map.empty, new_processor)))
       = workflow_tasks new_processor
   \<and> er_status (fst (execute_workflow monday ''WF_EQUIPMENT_CHECKOUT'' None new_processor))
       = ''pending''
   \<and> task_at (snd (execute_workflow monday ''WF_EQUIPMENT_CHECKOUT'' None new_processor)) 2
       = task_at new_processor 2"
proof -
  have h1: "2 \<in> set (tasks_of new_processor ''WF_EQUIPMENT_CHECKOUT'')"
    by code_simp
  have h2: "waits (task_at new_processor 2)"
    by code_simp
  show ?thesis
    using h1 h2 waiting_task_is_reported_pending [OF h1 h2, of "monday 2" Map.empty
        "start_result ''WF_EQUIPMENT_CHECKOUT'' Map.empty" monday None]
    by blast
qed

lemma record_failed:
  assumes "tr_status tr = ''failed''"
  shows "record_task_result i tr (er, st)
      = (er\<lparr>tasks_failed := tasks_failed er @ [tr]\<rparr>, set_status i FAILED st)"
  using assms by (simp add: record_task_result_def)

lemma set_status_task_at:
  "task_at (set_status i s st) j =
     (if j = i \<and> i < length (workflow_tasks st) then (task_at st i)\<lparr>status := s\<rparr>
      else task_at st j)"
proof (cases "i < length (workflow_tasks st)")
  case True
  then show ?thesis by (simp add: task_at_def set_status_def nth_list_update)
next
  case False
  then show ?thesis by (simp add: task_at_def set_status_def list_update_beyond)
qed




















end
